theory Spec2Isabelle
  imports Complex_Main "HOL-Library.Multiset" "HOL-Library.List_Lexorder" "HOL-Library.Char_ord"
begin

section \<open>Data model\<close>

text \<open>
  An article is the dictionary built by \<open>coletar_artigos\<close>: the keys \<open>titulo\<close>,
  \<open>resumo\<close> and \<open>link\<close> are always present, the key \<open>relevancia\<close> is absent
  (\<open>None\<close>) until \<open>calcular_relevancia\<close> stores it. Python strings are sequences of
  code points; the model keeps one \<open>char\<close> per code point and so covers Latin-1 text,
  which is enough for the two literals with accents that the code compares against.
  Floating-point scores are modelled as real numbers.
\<close>

record artigo =
  titulo :: string
  resumo :: string
  link :: string
  relevancia :: "real option"

text \<open>
  Python lists hold references to dictionaries, and \<open>calcular_relevancia\<close> writes into
  the dictionaries it is given. The store maps an address to the dictionary that lives
  there; an article list is a list of addresses.
\<close>

type_synonym addr = nat
type_synonym store = "addr \<Rightarrow> artigo"

datatype exn = ValueError | IndexError | KeyError | RequestException | JSONDecodeError | OSError

definition resumo_nao_disponivel :: string where
  "resumo_nao_disponivel = ''Resumo n'' @ [CHR 0xE3] @ ''o dispon'' @ [CHR 0xED] @ ''vel''"

definition titulo_nao_disponivel :: string where
  "titulo_nao_disponivel = ''T'' @ [CHR 0xED] @ ''tulo n'' @ [CHR 0xE3] @ ''o dispon'' @ [CHR 0xED] @ ''vel''"

section \<open>The vectoriser and the similarity, as the code calls them\<close>

text \<open>
  \<open>TfidfVectorizer\<close> and \<open>cosine_similarity\<close> belong to scikit-learn, not to the
  repository. \<open>calcular_relevancia\<close> takes them as a parameter: a record with the two
  calls the code makes. A matrix is the list of its rows.
\<close>

datatype stop_words = English | Stop_list "string list"

type_synonym matrix = "real list list"

record sklearn =
  fit_transform :: "stop_words \<Rightarrow> string list \<Rightarrow> exn + matrix"
  cosine_similarity :: "matrix \<Rightarrow> matrix \<Rightarrow> exn + matrix"

section \<open>calcular_relevancia\<close>

text \<open>
  The loop \<open>for i, artigo in enumerate(artigos): artigo['relevancia'] = ...\<close>, on the
  store: position \<open>i\<close> of the ORIGINAL list reads \<open>similaridades[i]\<close> when that index
  exists and 0 otherwise.
\<close>

fun atribuir :: "real list \<Rightarrow> store \<Rightarrow> nat \<Rightarrow> addr list \<Rightarrow> store" where
  "atribuir similaridades h i [] = h"
| "atribuir similaridades h i (a # as) =
     atribuir similaridades
       (h(a := (h a)\<lparr>relevancia := Some (if i < length similaridades then similaridades ! i else 0)\<rparr>))
       (Suc i) as"

text \<open>
  \<open>sorted(artigos, key=lambda x: x['relevancia'], reverse=True)\<close>: a stable sort,
  descending by the key; reading the key of a dictionary without it raises KeyError.
\<close>

definition chave :: "store \<Rightarrow> addr \<Rightarrow> real" where
  "chave h a = (case relevancia (h a) of Some r \<Rightarrow> r | None \<Rightarrow> 0)"

definition sorted_reverse :: "store \<Rightarrow> addr list \<Rightarrow> exn + addr list" where
  "sorted_reverse h as =
     (if list_all (\<lambda>a. relevancia (h a) \<noteq> None) as
      then Inr (sort_key (\<lambda>a. - chave h a) as)
      else Inl KeyError)"

definition escolher_stop_words :: "string list \<Rightarrow> string \<Rightarrow> stop_words" where
  "escolher_stop_words stop_words_pt idioma =
     (if idioma = ''pt'' then Stop_list stop_words_pt else English)"

definition textos_de :: "store \<Rightarrow> addr list \<Rightarrow> string list" where
  "textos_de h artigos =
     map (\<lambda>a. resumo (h a)) (filter (\<lambda>a. resumo (h a) \<noteq> resumo_nao_disponivel) artigos)"

definition calcular_relevancia ::
  "sklearn \<Rightarrow> string list \<Rightarrow> store \<Rightarrow> addr list \<Rightarrow> string \<Rightarrow> string \<Rightarrow> exn + (store \<times> addr list)" where
  "calcular_relevancia L stop_words_pt h artigos termo_referencia idioma =
     (let stop_words = escolher_stop_words stop_words_pt idioma;
          textos = textos_de h artigos
      in case fit_transform L stop_words (textos @ [termo_referencia]) of
           Inl e \<Rightarrow> Inl e
         | Inr matriz_tfidf \<Rightarrow>
             (if matriz_tfidf = [] then Inl IndexError
              else case cosine_similarity L [last matriz_tfidf] (butlast matriz_tfidf) of
                     Inl e \<Rightarrow> Inl e
                   | Inr sim \<Rightarrow>
                       (let similaridades = concat sim;
                            h' = atribuir similaridades h 0 artigos
                        in case sorted_reverse h' artigos of
                             Inl e \<Rightarrow> Inl e
                           | Inr artigos_ordenados \<Rightarrow> Inr (h', artigos_ordenados))))"

section \<open>The export filter of the main programs\<close>

text \<open>
  \<open>[artigo for artigo in artigos_ordenados if artigo['relevancia'] > 0]\<close>, the list
  that goes on to \<open>salvar_artigos\<close>.
\<close>

definition artigos_relevantes :: "store \<Rightarrow> addr list \<Rightarrow> exn + addr list" where
  "artigos_relevantes h artigos_ordenados =
     (if list_all (\<lambda>a. relevancia (h a) \<noteq> None) artigos_ordenados
      then Inr (filter (\<lambda>a. 0 < chave h a) artigos_ordenados)
      else Inl KeyError)"

text \<open>
  One round of the main program after the collection: nothing is ranked when no article
  was found (\<open>if artigos:\<close>), otherwise the articles are ranked and filtered.
\<close>

definition classificar_e_filtrar ::
  "sklearn \<Rightarrow> string list \<Rightarrow> store \<Rightarrow> addr list \<Rightarrow> string \<Rightarrow> string \<Rightarrow> exn + (store \<times> addr list)" where
  "classificar_e_filtrar L stop_words_pt h artigos termo_referencia idioma =
     (if artigos = [] then Inr (h, [])
      else case calcular_relevancia L stop_words_pt h artigos termo_referencia idioma of
             Inl e \<Rightarrow> Inl e
           | Inr (h', artigos_ordenados) \<Rightarrow>
               (case artigos_relevantes h' artigos_ordenados of
                  Inl e \<Rightarrow> Inl e
                | Inr relevantes \<Rightarrow> Inr (h', relevantes)))"

section \<open>preprocessar_texto\<close>

text \<open>
  The two spaCy pipelines are parameters: each turns a text into its tokens, and a token
  carries its lemma (the attribute \<open>lemma_\<close>, here the field \<open>token_lemma\<close>) and the
  two flags the code reads.
\<close>

record token =
  token_lemma :: string
  is_stop :: bool
  is_punct :: bool

definition preprocessar_texto ::
  "(string \<Rightarrow> token list) \<Rightarrow> (string \<Rightarrow> token list) \<Rightarrow> string \<Rightarrow> string \<Rightarrow> string list" where
  "preprocessar_texto nlp_en nlp_pt texto idioma =
     (let doc = (if idioma = ''pt'' then nlp_pt texto else nlp_en texto)
      in map token_lemma (filter (\<lambda>t. \<not> is_stop t \<and> \<not> is_punct t) doc))"

section \<open>coletar_artigos\<close>

text \<open>
  The SerpAPI variant. The HTTP call is a parameter: it raises or gives a response with a
  status code and a body; \<open>response.json()\<close> raises on a body that is not JSON, and
  otherwise the key \<open>organic_results\<close> is present or not. Each result is a dictionary
  in which each of the three keys may be missing.
\<close>

record resultado =
  title :: "string option"
  snippet :: "string option"
  res_link :: "string option"

datatype corpo = Nao_json | Json "resultado list option"

record response =
  status_code :: int
  json :: corpo

definition novo_artigo :: "string \<Rightarrow> string \<Rightarrow> string \<Rightarrow> artigo" where
  "novo_artigo t r l = \<lparr>titulo = t, resumo = r, link = l, relevancia = None\<rparr>"

definition get_or :: "'a option \<Rightarrow> 'a \<Rightarrow> 'a" where
  "get_or v d = (case v of None \<Rightarrow> d | Some x \<Rightarrow> x)"

text \<open>\<open>xs[:m]\<close> for an integer \<open>m\<close>: a negative \<open>m\<close> counts from the end.\<close>

definition slice_ate :: "int \<Rightarrow> 'a list \<Rightarrow> 'a list" where
  "slice_ate m xs = (if 0 \<le> m then take (nat m) xs else take (nat (int (length xs) + m)) xs)"

definition artigo_serpapi :: "resultado \<Rightarrow> artigo" where
  "artigo_serpapi r =
     novo_artigo (get_or (title r) titulo_nao_disponivel)
                 (get_or (snippet r) resumo_nao_disponivel)
                 (get_or (res_link r) [])"

definition coletar_artigos_serpapi ::
  "(string \<Rightarrow> int \<Rightarrow> exn + response) \<Rightarrow> string \<Rightarrow> int \<Rightarrow> exn + artigo list" where
  "coletar_artigos_serpapi requests_get query max_resultados =
     (case requests_get query max_resultados of
        Inl e \<Rightarrow> Inl e
      | Inr response \<Rightarrow>
          (if status_code response = 200
           then (case json response of
                   Nao_json \<Rightarrow> Inl JSONDecodeError
                 | Json organic \<Rightarrow>
                     Inr (map artigo_serpapi (slice_ate max_resultados (get_or organic []))))
           else Inr []))"

text \<open>
  The scholarly variant. \<open>search_pubs\<close> raises or gives a generator; the generator
  yields publications and may raise when asked for the next one (\<open>Inl\<close> at that
  position). The loop asks for item \<open>i\<close> before it tests \<open>i >= max_resultados\<close>.
\<close>

record bib_dict =
  bib_title :: "string option"
  bib_abstract :: "string option"

record publicacao =
  bib :: "bib_dict option"
  eprint_url :: "string option"

definition artigo_scholarly :: "publicacao \<Rightarrow> artigo" where
  "artigo_scholarly r =
     novo_artigo
       (get_or (bib_title (get_or (bib r) \<lparr>bib_title = None, bib_abstract = None\<rparr>)) titulo_nao_disponivel)
       (get_or (bib_abstract (get_or (bib r) \<lparr>bib_title = None, bib_abstract = None\<rparr>)) resumo_nao_disponivel)
       (get_or (eprint_url r) [])"

fun coletar_laco :: "int \<Rightarrow> nat \<Rightarrow> (exn + publicacao) list \<Rightarrow> artigo list \<Rightarrow> exn + artigo list" where
  "coletar_laco max_resultados i [] artigos = Inr artigos"
| "coletar_laco max_resultados i (Inl e # resto) artigos = Inl e"
| "coletar_laco max_resultados i (Inr r # resto) artigos =
     (if max_resultados \<le> int i then Inr artigos
      else coletar_laco max_resultados (Suc i) resto (artigos @ [artigo_scholarly r]))"

definition coletar_artigos_scholarly ::
  "(string \<Rightarrow> exn + (exn + publicacao) list) \<Rightarrow> string \<Rightarrow> int \<Rightarrow> exn + artigo list" where
  "coletar_artigos_scholarly search_pubs query max_resultados =
     (case search_pubs query of
        Inl e \<Rightarrow> Inl e
      | Inr resultados \<Rightarrow> coletar_laco max_resultados 0 resultados [])"

section \<open>baixar_pdf\<close>

text \<open>
  The file system holds directories and files (a path to its bytes). What the outside
  world decides is a parameter: whether \<open>os.makedirs\<close> fails, what
  \<open>requests.get(link, stream=True)\<close> gives (an exception, or a status code and the
  stream of chunks, where \<open>Inl\<close> at a position is an exception raised while that chunk
  is read or written), and whether \<open>open(arquivo_pdf, "wb")\<close> fails. The function
  \<open>os.path.join\<close> depends on the platform (\<open>posixpath.join\<close> or \<open>ntpath.join\<close>) and
  is a parameter of \<open>baixar_pdf\<close> as well.
\<close>

record fs =
  dirs :: "string set"
  files :: "string \<rightharpoonup> string"

record ambiente =
  makedirs_falha :: "exn option"
  resposta :: "exn + (int \<times> (exn + string) list)"
  open_falha :: "exn option"

definition os_path_exists :: "fs \<Rightarrow> string \<Rightarrow> bool" where
  "os_path_exists s p = (p \<in> dirs s \<or> files s p \<noteq> None)"

fun escrever :: "(exn + string) list \<Rightarrow> fs \<Rightarrow> string \<Rightarrow> fs \<times> bool" where
  "escrever [] s p = (s, True)"
| "escrever (Inl e # cs) s p = (s, False)"
| "escrever (Inr c # cs) s p =
     escrever cs (s\<lparr>files := (files s)(p \<mapsto> get_or (files s p) [] @ c)\<rparr>) p"

definition baixar_pdf ::
  "(string \<Rightarrow> string \<Rightarrow> string) \<Rightarrow> ambiente \<Rightarrow> fs \<Rightarrow> artigo \<Rightarrow> string \<Rightarrow> fs \<times> (exn + bool)" where
  "baixar_pdf os_path_join amb s artigo pasta_destino =
     (case (if os_path_exists s pasta_destino then Inr s
            else case makedirs_falha amb of
                   Some e \<Rightarrow> Inl e
                 | None \<Rightarrow> Inr (s\<lparr>dirs := insert pasta_destino (dirs s)\<rparr>)) of
        Inl e \<Rightarrow> (s, Inl e)
      | Inr s1 \<Rightarrow>
          (if link artigo \<noteq> []
           then (case resposta amb of
                   Inl e \<Rightarrow> (s1, Inr False)
                 | Inr (status, chunks) \<Rightarrow>
                     (if status = 200
                      then (let arquivo_pdf = os_path_join pasta_destino (take 50 (titulo artigo) @ ''.pdf'')
                            in case open_falha amb of
                                 Some e \<Rightarrow> (s1, Inr False)
                               | None \<Rightarrow>
                                   (case escrever chunks (s1\<lparr>files := (files s1)(arquivo_pdf \<mapsto> [])\<rparr>) arquivo_pdf of
                                      (s2, ok) \<Rightarrow> (s2, Inr ok)))
                      else (s1, Inr False)))
           else (s1, Inr False)))"

text \<open>\<open>posixpath.join\<close> of two components: \<open>os.path.join\<close> on POSIX.\<close>

definition posixpath_join :: "string \<Rightarrow> string \<Rightarrow> string" where
  "posixpath_join a b =
     (if b \<noteq> [] \<and> hd b = CHR ''/'' then b
      else if a = [] \<or> last a = CHR ''/'' then a @ b
      else a @ ''/'' @ b)"

section \<open>salvar_artigos\<close>














section \<open>Reading the file back\<close>

text \<open>
  The decoder of \<open>json.load\<close>. Whitespace is space, tab, line feed and carriage return.
  A string ends at the next quotation mark; a backslash starts one of the escapes
  \<open>\" \\ \/ \b \f \n \r \t\<close> or \<open>\uXXXX\<close> with four hexadecimal digits, and a
  control character inside a string is refused. A code point above U+00FF is not a
  \<open>char\<close>; there the model refuses the document.
\<close>

definition whitespace :: "char \<Rightarrow> bool" where
  "whitespace c = (c = CHR '' '' \<or> c = CHR 0x09 \<or> c = CHR 0x0A \<or> c = CHR 0x0D)"

definition skip_ws :: "string \<Rightarrow> string" where
  "skip_ws s = dropWhile whitespace s"















section \<open>A model of the scikit-learn calls\<close>

text \<open>
  For concrete runs the parameter of \<open>calcular_relevancia\<close> is instantiated with what
  scikit-learn computes, over the reals: the default analyser of \<open>TfidfVectorizer\<close>
  (lower-case the text, take the maximal runs of two or more word characters, drop the
  stop words), the vocabulary in sorted order, smoothed inverse document frequencies,
  rows scaled to Euclidean length 1 (a zero row stays zero), and the cosine of each pair
  of rows. An empty vocabulary raises ValueError, and so does a similarity against a
  matrix with no rows. The built-in English stop-word list is a parameter.
\<close>

definition word_char :: "char \<Rightarrow> bool" where
  "word_char c =
     (let n = (of_char c :: nat)
      in (48 \<le> n \<and> n \<le> 57) \<or> (65 \<le> n \<and> n \<le> 90) \<or> n = 95 \<or> (97 \<le> n \<and> n \<le> 122) \<or>
         n = 0xAA \<or> n = 0xB2 \<or> n = 0xB3 \<or> n = 0xB5 \<or> n = 0xB9 \<or> n = 0xBA \<or>
         (0xBC \<le> n \<and> n \<le> 0xBE) \<or> (0xC0 \<le> n \<and> n < 0xD7) \<or> (0xD7 < n \<and> n < 0xF7) \<or> 0xF7 < n)"

definition is_upper :: "char \<Rightarrow> bool" where
  "is_upper c =
     (let n = (of_char c :: nat)
      in (65 \<le> n \<and> n \<le> 90) \<or> (0xC0 \<le> n \<and> n < 0xD7) \<or> (0xD7 < n \<and> n \<le> 0xDE))"

text \<open>In Latin-1 the lower-case letter of an upper-case one is 32 above it: bit 5 set.\<close>

fun lower_char :: "char \<Rightarrow> char" where
  "lower_char (Char b0 b1 b2 b3 b4 b5 b6 b7) =
     (if is_upper (Char b0 b1 b2 b3 b4 b5 b6 b7) then Char b0 b1 b2 b3 b4 True b6 b7
      else Char b0 b1 b2 b3 b4 b5 b6 b7)"

fun runs :: "string \<Rightarrow> string \<Rightarrow> string list" where
  "runs cur [] = [cur]"
| "runs cur (c # cs) = (if word_char c then runs (cur @ [c]) cs else cur # runs [] cs)"

definition tokenize :: "string \<Rightarrow> string list" where
  "tokenize doc = filter (\<lambda>t. 2 \<le> length t) (runs [] doc)"

definition analyze :: "string list \<Rightarrow> stop_words \<Rightarrow> string \<Rightarrow> string list" where
  "analyze english sw doc =
     (let stops = (case sw of English \<Rightarrow> english | Stop_list l \<Rightarrow> l)
      in filter (\<lambda>w. w \<notin> set stops) (tokenize (map lower_char doc)))"

definition idf :: "nat \<Rightarrow> nat \<Rightarrow> real" where
  "idf n df = ln ((1 + real n) / (1 + real df)) + 1"

definition norm_l2 :: "real list \<Rightarrow> real" where
  "norm_l2 v = sqrt (sum_list (map (\<lambda>x. x * x) v))"

definition normalize :: "real list \<Rightarrow> real list" where
  "normalize v = (if norm_l2 v = 0 then v else map (\<lambda>x. x / norm_l2 v) v)"

definition tfidf_row :: "nat \<Rightarrow> string list list \<Rightarrow> string list \<Rightarrow> string list \<Rightarrow> real list" where
  "tfidf_row n toks vocabulary d =
     normalize (map (\<lambda>t. real (count_list d t) * idf n (length (filter (\<lambda>d'. t \<in> set d') toks)))
                    vocabulary)"

definition tfidf_fit_transform :: "string list \<Rightarrow> stop_words \<Rightarrow> string list \<Rightarrow> exn + matrix" where
  "tfidf_fit_transform english sw docs =
     (let toks = map (analyze english sw) docs;
          vocabulary = sort (remdups (concat toks))
      in if vocabulary = [] then Inl ValueError
         else Inr (map (tfidf_row (length docs) toks vocabulary) toks))"

definition dot :: "real list \<Rightarrow> real list \<Rightarrow> real" where
  "dot u v = sum_list (map2 (*) u v)"

definition pairwise_cosine :: "matrix \<Rightarrow> matrix \<Rightarrow> exn + matrix" where
  "pairwise_cosine X Y =
     (if X = [] \<or> Y = [] then Inl ValueError
      else Inr (map (\<lambda>x. map (\<lambda>y. dot (normalize x) (normalize y)) Y) X))"

definition scikit :: "string list \<Rightarrow> sklearn" where
  "scikit english =
     \<lparr>fit_transform = tfidf_fit_transform english, cosine_similarity = pairwise_cosine\<rparr>"

section \<open>Concrete data for the examples\<close>

text \<open>Six words of scikit-learn's English stop-word list.\<close>

definition english_excerpt :: "string list" where
  "english_excerpt = [''the'', ''of'', ''and'', ''is'', ''in'', ''to'']"

text \<open>
  A store with four articles: 0 has no abstract, 1 and 3 are about graphs, 2 consists of
  a stop word.
\<close>

definition h_ex :: store where
  "h_ex = (\<lambda>_. novo_artigo ''A'' resumo_nao_disponivel [])
            (1 := novo_artigo ''B'' ''graph'' ''http://b'',
             2 := novo_artigo ''C'' ''the'' ''http://c'',
             3 := novo_artigo ''D'' ''Graph'' [])"

text \<open>The store after ranking the list \<open>[2, 1]\<close>, and after ranking \<open>[0, 1]\<close>, against "graph".\<close>

definition h_ex_21 :: store where
  "h_ex_21 = h_ex(2 := (h_ex 2)\<lparr>relevancia := Some 0\<rparr>, 1 := (h_ex 1)\<lparr>relevancia := Some 1\<rparr>)"

definition h_ex_01 :: store where
  "h_ex_01 = h_ex(0 := (h_ex 0)\<lparr>relevancia := Some 1\<rparr>, 1 := (h_ex 1)\<lparr>relevancia := Some 0\<rparr>)"

text \<open>
  Two variants of the library model that fail whenever they are handed the stop words the
  other language would choose: the first works only with the built-in English list, the
  second only with an explicit list.
\<close>

definition so_ingles :: sklearn where
  "so_ingles =
     \<lparr>fit_transform = (\<lambda>sw. case sw of English \<Rightarrow> tfidf_fit_transform english_excerpt English
                                     | Stop_list l \<Rightarrow> (\<lambda>docs. Inl ValueError)),
      cosine_similarity = pairwise_cosine\<rparr>"

definition so_lista :: sklearn where
  "so_lista =
     \<lparr>fit_transform = (\<lambda>sw. case sw of English \<Rightarrow> (\<lambda>docs. Inl ValueError)
                                     | Stop_list l \<Rightarrow> tfidf_fit_transform english_excerpt (Stop_list l)),
      cosine_similarity = pairwise_cosine\<rparr>"

text \<open>Two stand-ins for the spaCy pipelines, told apart by the lemma they give.\<close>

definition nlp_demo :: "string \<Rightarrow> string \<Rightarrow> token list" where
  "nlp_demo tag texto =
     [\<lparr>token_lemma = tag @ texto, is_stop = False, is_punct = False\<rparr>,
      \<lparr>token_lemma = ''the'', is_stop = True, is_punct = False\<rparr>,
      \<lparr>token_lemma = ''.'', is_stop = False, is_punct = True\<rparr>]"

text \<open>Outcomes of the remote calls of \<open>coletar_artigos\<close>.\<close>

definition tres_resultados :: "resultado list" where
  "tres_resultados =
     [\<lparr>title = Some ''Graphs'', snippet = Some ''graph'', res_link = Some ''http://g''\<rparr>,
      \<lparr>title = None, snippet = None, res_link = None\<rparr>,
      \<lparr>title = Some ''Trees'', snippet = Some ''tree'', res_link = None\<rparr>]"

definition get_ok :: "string \<Rightarrow> int \<Rightarrow> exn + response" where
  "get_ok q n = Inr \<lparr>status_code = 200, json = Json (Some tres_resultados)\<rparr>"

definition get_500 :: "string \<Rightarrow> int \<Rightarrow> exn + response" where
  "get_500 q n = Inr \<lparr>status_code = 500, json = Nao_json\<rparr>"

definition get_falha :: "string \<Rightarrow> int \<Rightarrow> exn + response" where
  "get_falha q n = Inl RequestException"

definition tres_publicacoes :: "(exn + publicacao) list" where
  "tres_publicacoes =
     [Inr \<lparr>bib = Some \<lparr>bib_title = Some ''Graphs'', bib_abstract = Some ''graph''\<rparr>, eprint_url = Some ''http://g''\<rparr>,
      Inr \<lparr>bib = None, eprint_url = None\<rparr>,
      Inr \<lparr>bib = Some \<lparr>bib_title = Some ''Trees'', bib_abstract = None\<rparr>, eprint_url = None\<rparr>]"

definition search_ok :: "string \<Rightarrow> exn + (exn + publicacao) list" where
  "search_ok q = Inr tres_publicacoes"

definition search_falha :: "string \<Rightarrow> exn + (exn + publicacao) list" where
  "search_falha q = Inl RequestException"

text \<open>A generator that yields one publication and raises when asked for the next.\<close>

definition publicacao_grafos :: publicacao where
  "publicacao_grafos =
     \<lparr>bib = Some \<lparr>bib_title = Some ''Graphs'', bib_abstract = Some ''graph''\<rparr>, eprint_url = Some ''http://g''\<rparr>"

definition search_interrompida :: "string \<Rightarrow> exn + (exn + publicacao) list" where
  "search_interrompida q = Inr [Inr publicacao_grafos, Inl RequestException]"

text \<open>An empty file system, two environments for \<open>baixar_pdf\<close>, and an article.\<close>

definition fs_vazio :: fs where
  "fs_vazio = \<lparr>dirs = {}, files = Map.empty\<rparr>"

definition amb_ok :: ambiente where
  "amb_ok = \<lparr>makedirs_falha = None, resposta = Inr (200, [Inr ''%PDF'', Inr ''-1.4'']), open_falha = None\<rparr>"

definition amb_sem_permissao :: ambiente where
  "amb_sem_permissao = \<lparr>makedirs_falha = Some OSError, resposta = Inr (200, [Inr ''%PDF'']), open_falha = None\<rparr>"

definition artigo_barra :: artigo where
  "artigo_barra = novo_artigo ''/tmp/x'' ''graph'' ''http://b''"




section \<open>Properties of the loop\<close>

lemma atribuir_outside: "a \<notin> set as \<Longrightarrow> atribuir s h i as a = h a"
  by (induction as arbitrary: h i) auto

lemma atribuir_titulo: "titulo (atribuir s h i as a) = titulo (h a)"
  by (induction as arbitrary: h i) auto

lemma atribuir_resumo: "resumo (atribuir s h i as a) = resumo (h a)"
  by (induction as arbitrary: h i) auto

lemma atribuir_link: "link (atribuir s h i as a) = link (h a)"
  by (induction as arbitrary: h i) auto

lemma atribuir_keeps_Some:
  "relevancia (h a) \<noteq> None \<Longrightarrow> relevancia (atribuir s h i as a) \<noteq> None"
  by (induction as arbitrary: h i) auto

lemma atribuir_sets: "a \<in> set as \<Longrightarrow> relevancia (atribuir s h i as a) \<noteq> None"
proof (induction as arbitrary: h i)
  case Nil
  then show ?case by simp
next
  case (Cons b bs)
  show ?case
  proof (cases "a = b")
    case True
    then show ?thesis by (simp add: atribuir_keeps_Some)
  next
    case False
    with Cons show ?thesis by simp
  qed
qed

lemma sorted_reverse_atribuir:
  "sorted_reverse (atribuir s h i as) as = Inr (sort_key (\<lambda>a. - chave (atribuir s h i as) a) as)"
  by (simp add: sorted_reverse_def list_all_iff atribuir_sets)

lemma calcular_relevancia_Inr:
  assumes "calcular_relevancia L pt h artigos termo idioma = Inr (h', ordenados)"
  obtains s where "h' = atribuir s h 0 artigos"
    and "ordenados = sort_key (\<lambda>a. - chave h' a) artigos"
  using assms
  by (auto simp: calcular_relevancia_def Let_def sorted_reverse_atribuir
      split: sum.splits if_splits)

lemma chave_atribuir: "a \<in> set as \<Longrightarrow> relevancia (atribuir s h i as a) = Some (chave (atribuir s h i as) a)"
  using atribuir_sets [of a as s h i] by (auto simp: chave_def split: option.splits)

section \<open>Evaluating the scikit-learn model\<close>

lemmas analyse_simps = analyze_def tokenize_def english_excerpt_def is_upper_def word_char_def Let_def

lemma idf_pos:
  assumes "df \<le> n"
  shows "0 < idf n df"
proof -
  from assms have "1 \<le> (1 + real n) / (1 + real df)" by (simp add: field_simps)
  then have "0 \<le> ln ((1 + real n) / (1 + real df))" by simp
  then show ?thesis unfolding idf_def by linarith
qed

lemma normalize_single: "0 < x \<Longrightarrow> normalize [x] = [1]"
  by (simp add: normalize_def norm_l2_def)

lemma normalize_zero1: "normalize [0] = [0]"
  by (simp add: normalize_def norm_l2_def)

lemma fit_graph_graph:
  "tfidf_fit_transform english_excerpt English [''graph'', ''graph''] = Inr [[1], [1]]"
  by (simp add: tfidf_fit_transform_def tfidf_row_def analyse_simps normalize_single idf_pos)

lemma fit_the_graph_graph:
  "tfidf_fit_transform english_excerpt English [''the'', ''graph'', ''graph''] = Inr [[0], [1], [1]]"
  by (simp add: tfidf_fit_transform_def tfidf_row_def analyse_simps normalize_single normalize_zero1 idf_pos)

lemmas run_simps = calcular_relevancia_def escolher_stop_words_def textos_de_def h_ex_def
  novo_artigo_def resumo_nao_disponivel_def scikit_def pairwise_cosine_def dot_def
  normalize_single normalize_zero1 sorted_reverse_def chave_def Let_def

lemma run_ex_21:
  "calcular_relevancia (scikit english_excerpt) [] h_ex [2, 1] ''graph'' ''en'' = Inr (h_ex_21, [1, 2])"
  by (simp add: run_simps h_ex_21_def fit_the_graph_graph)

lemma run_ex_01:
  "calcular_relevancia (scikit english_excerpt) [] h_ex [0, 1] ''graph'' ''en'' = Inr (h_ex_01, [0, 1])"
  by (simp add: run_simps h_ex_01_def fit_graph_graph)

section \<open>Ranking: order, stability, and the effect on the store\<close>

text \<open>
  C10. \<open>calcular_relevancia\<close> works in place: when it returns, the returned list is a
  permutation of the references it was given, every dictionary in the list has the key
  \<open>relevancia\<close> in the store (whether or not the caller looks at the return value), the
  keys \<open>titulo\<close>, \<open>resumo\<close> and \<open>link\<close> of every dictionary are as before, and a
  dictionary that is not in the list is untouched.
\<close>

theorem calcular_relevancia_in_place:
  assumes "calcular_relevancia L pt h artigos termo idioma = Inr (h', ordenados)"
  shows "mset ordenados = mset artigos \<and>
         list_all (\<lambda>a. relevancia (h' a) \<noteq> None) artigos \<and>
         (\<forall>a. titulo (h' a) = titulo (h a) \<and> resumo (h' a) = resumo (h a) \<and> link (h' a) = link (h a)) \<and>
         (\<forall>a. a \<in> set artigos \<or> h' a = h a)"
proof -
  from assms obtain s where h': "h' = atribuir s h 0 artigos"
    and ord: "ordenados = sort_key (\<lambda>a. - chave h' a) artigos"
    by (rule calcular_relevancia_Inr)
  have "mset ordenados = mset artigos" by (simp add: ord)
  moreover have "list_all (\<lambda>a. relevancia (h' a) \<noteq> None) artigos"
    unfolding h' list_all_iff using atribuir_sets by blast
  moreover have "\<forall>a. titulo (h' a) = titulo (h a) \<and> resumo (h' a) = resumo (h a) \<and> link (h' a) = link (h a)"
    by (simp add: h' atribuir_titulo atribuir_resumo atribuir_link)
  moreover have "\<forall>a. a \<in> set artigos \<or> h' a = h a"
    using atribuir_outside [of _ artigos s h 0] by (auto simp: h')
  ultimately show ?thesis by blast
qed

theorem calcular_relevancia_in_place_witness:
  "calcular_relevancia (scikit english_excerpt) [] h_ex [2, 1] ''graph'' ''en'' = Inr (h_ex_21, [1, 2]) \<and>
   mset [1 :: nat, 2] = mset [2, 1] \<and>
   relevancia (h_ex_21 2) = Some 0 \<and> relevancia (h_ex_21 1) = Some 1 \<and>
   titulo (h_ex_21 1) = titulo (h_ex 1) \<and> resumo (h_ex_21 1) = resumo (h_ex 1) \<and>
   link (h_ex_21 1) = link (h_ex 1) \<and> h_ex_21 0 = h_ex 0"
  using calcular_relevancia_in_place [OF run_ex_21] run_ex_21
  by (simp add: h_ex_21_def)

text \<open>
  C3. When \<open>calcular_relevancia\<close> returns, the relevance values of the returned list
  are non-increasing from first to last, and the articles with one and the same relevance
  come in the order they had in the input list. The key of every returned article is the
  value stored under \<open>relevancia\<close>.
\<close>

theorem calcular_relevancia_sorted_stable:
  assumes "calcular_relevancia L pt h artigos termo idioma = Inr (h', ordenados)"
  shows "sorted_wrt (\<lambda>a b. chave h' b \<le> chave h' a) ordenados \<and>
         (\<forall>k. filter (\<lambda>a. chave h' a = k) ordenados = filter (\<lambda>a. chave h' a = k) artigos) \<and>
         list_all (\<lambda>a. relevancia (h' a) = Some (chave h' a)) ordenados"
proof -
  from assms obtain s where h': "h' = atribuir s h 0 artigos"
    and ord: "ordenados = sort_key (\<lambda>a. - chave h' a) artigos"
    by (rule calcular_relevancia_Inr)
  have "sorted (map (\<lambda>a. - chave h' a) ordenados)"
    unfolding ord by (rule sorted_sort_key)
  then have "sorted_wrt (\<lambda>a b. chave h' b \<le> chave h' a) ordenados"
    by (simp add: sorted_map)
  moreover have "filter (\<lambda>a. chave h' a = k) ordenados = filter (\<lambda>a. chave h' a = k) artigos" for k
    using sort_key_stable [of "\<lambda>a. - chave h' a" "- k" artigos] by (simp add: ord)
  moreover have "list_all (\<lambda>a. relevancia (h' a) = Some (chave h' a)) ordenados"
    by (simp add: ord list_all_iff h' chave_atribuir)
  ultimately show ?thesis by blast
qed

theorem calcular_relevancia_sorted_stable_witness:
  "calcular_relevancia (scikit english_excerpt) [] h_ex [2, 1] ''graph'' ''en'' = Inr (h_ex_21, [1, 2]) \<and>
   sorted_wrt (\<lambda>a b. chave h_ex_21 b \<le> chave h_ex_21 a) [1, 2] \<and>
   filter (\<lambda>a. chave h_ex_21 a = 1) [1, 2] = filter (\<lambda>a. chave h_ex_21 a = 1) [2, 1] \<and>
   chave h_ex_21 1 = 1 \<and> chave h_ex_21 2 = 0"
  using calcular_relevancia_sorted_stable [OF run_ex_21] run_ex_21
  by (simp add: h_ex_21_def chave_def)

section \<open>The export filter\<close>

lemma classificar_e_filtrar_Inr:
  assumes "classificar_e_filtrar L pt h artigos termo idioma = Inr (h', relevantes)"
    and "artigos \<noteq> []"
  obtains ordenados where "calcular_relevancia L pt h artigos termo idioma = Inr (h', ordenados)"
    and "relevantes = filter (\<lambda>a. 0 < chave h' a) ordenados"
  using assms
  by (auto simp: classificar_e_filtrar_def artigos_relevantes_def split: sum.splits if_splits)

text \<open>
  C6. Of the articles handed to a round of the main program, the ones that go on to
  persistence are exactly those whose relevance is strictly greater than 0, each as often
  as it occurs in the input; no article with relevance 0 is among them. The threshold is
  the constant 0.
\<close>

theorem classificar_e_filtrar_threshold:
  assumes "classificar_e_filtrar L pt h artigos termo idioma = Inr (h', relevantes)"
  shows "mset relevantes = filter_mset (\<lambda>a. 0 < chave h' a) (mset artigos) \<and>
         (\<forall>a. a \<in> set relevantes \<longleftrightarrow>
                a \<in> set artigos \<and> (\<exists>r. relevancia (h' a) = Some r \<and> 0 < r)) \<and>
         list_all (\<lambda>a. relevancia (h' a) \<noteq> Some 0) relevantes"
proof (cases "artigos = []")
  case True
  with assms show ?thesis by (simp add: classificar_e_filtrar_def)
next
  case False
  from assms False obtain ordenados
    where calc: "calcular_relevancia L pt h artigos termo idioma = Inr (h', ordenados)"
      and rel: "relevantes = filter (\<lambda>a. 0 < chave h' a) ordenados"
    by (rule classificar_e_filtrar_Inr)
  from calc obtain s where h': "h' = atribuir s h 0 artigos"
    and ord: "ordenados = sort_key (\<lambda>a. - chave h' a) artigos"
    by (rule calcular_relevancia_Inr)
  have key: "relevancia (h' a) = Some (chave h' a)" if "a \<in> set artigos" for a
    using that by (simp add: h' chave_atribuir)
  have m: "mset relevantes = filter_mset (\<lambda>a. 0 < chave h' a) (mset artigos)"
    by (simp add: rel ord)
  have s: "a \<in> set relevantes \<longleftrightarrow>
           a \<in> set artigos \<and> (\<exists>r. relevancia (h' a) = Some r \<and> 0 < r)" for a
    using key [of a] by (auto simp: rel ord)
  have z: "list_all (\<lambda>a. relevancia (h' a) \<noteq> Some 0) relevantes"
    using key by (auto simp: list_all_iff rel ord)
  from m s z show ?thesis by blast
qed

theorem classificar_e_filtrar_threshold_witness:
  "classificar_e_filtrar (scikit english_excerpt) [] h_ex [2, 1] ''graph'' ''en'' = Inr (h_ex_21, [1]) \<and>
   mset [1 :: nat] = filter_mset (\<lambda>a. 0 < chave h_ex_21 a) (mset [2, 1]) \<and>
   relevancia (h_ex_21 1) = Some 1 \<and> relevancia (h_ex_21 2) = Some 0"
proof -
  have run: "classificar_e_filtrar (scikit english_excerpt) [] h_ex [2, 1] ''graph'' ''en'' = Inr (h_ex_21, [1])"
    by (subst classificar_e_filtrar_def, subst run_ex_21)
       (simp add: artigos_relevantes_def h_ex_21_def chave_def)
  from classificar_e_filtrar_threshold [OF run] run show ?thesis
    by (simp add: h_ex_21_def)
qed

section \<open>The language tag\<close>

lemma fit_the_graph_graph_lista:
  "tfidf_fit_transform english_excerpt (Stop_list [''the'']) [''the'', ''graph'', ''graph''] = Inr [[0], [1], [1]]"
  by (simp add: tfidf_fit_transform_def tfidf_row_def analyse_simps normalize_single normalize_zero1 idf_pos)

lemma textos_ex_21: "textos_de h_ex [2, 1] = [''the'', ''graph'']"
  by (simp add: textos_de_def h_ex_def novo_artigo_def resumo_nao_disponivel_def)

lemma cosine_ex_21: "pairwise_cosine [[1]] [[0], [1]] = Inr [[0, 1]]"
  by (simp add: pairwise_cosine_def dot_def normalize_single normalize_zero1)

lemma atribuir_ex_21: "atribuir (concat [[0, 1]]) h_ex 0 [2, 1] = h_ex_21"
  by (simp add: h_ex_21_def)

lemma sort_ex_21: "sort_key (\<lambda>a. - chave h_ex_21 a) [2, 1] = [1, 2]"
  by (simp add: h_ex_21_def chave_def h_ex_def novo_artigo_def)

text \<open>
  C9. For every tag other than "pt" \<open>preprocessar_texto\<close> runs the English pipeline, and
  for "pt" the Portuguese one. \<open>calcular_relevancia\<close> calls the vectoriser with the
  built-in English stop words for every tag other than "pt", and with the Portuguese list
  for "pt", and that one call decides its result: an exception of the call is the exception
  of \<open>calcular_relevancia\<close>, and a matrix it gives is the one whose last row is compared
  with the other rows to score and order the articles.
\<close>

theorem idioma_default_english:
  "(idioma \<noteq> ''pt'' \<longrightarrow>
      preprocessar_texto nlp_en nlp_pt texto idioma =
        map token_lemma (filter (\<lambda>t. \<not> is_stop t \<and> \<not> is_punct t) (nlp_en texto))) \<and>
   preprocessar_texto nlp_en1 nlp_pt1 texto1 ''pt'' =
     map token_lemma (filter (\<lambda>t. \<not> is_stop t \<and> \<not> is_punct t) (nlp_pt1 texto1)) \<and>
   (idioma2 \<noteq> ''pt'' \<longrightarrow>
      fit_transform L2 English (textos_de h2 artigos2 @ [termo2]) = Inl e2 \<longrightarrow>
      calcular_relevancia L2 pt2 h2 artigos2 termo2 idioma2 = Inl e2) \<and>
   (idioma3 \<noteq> ''pt'' \<longrightarrow>
      fit_transform L3 English (textos_de h3 artigos3 @ [termo3]) = Inr M3 \<longrightarrow> M3 \<noteq> [] \<longrightarrow>
      cosine_similarity L3 [last M3] (butlast M3) = Inr sim3 \<longrightarrow>
      calcular_relevancia L3 pt3 h3 artigos3 termo3 idioma3 =
        Inr (atribuir (concat sim3) h3 0 artigos3,
             sort_key (\<lambda>a. - chave (atribuir (concat sim3) h3 0 artigos3) a) artigos3)) \<and>
   (fit_transform L4 (Stop_list pt4) (textos_de h4 artigos4 @ [termo4]) = Inl e4 \<longrightarrow>
      calcular_relevancia L4 pt4 h4 artigos4 termo4 ''pt'' = Inl e4) \<and>
   (fit_transform L5 (Stop_list pt5) (textos_de h5 artigos5 @ [termo5]) = Inr M5 \<longrightarrow> M5 \<noteq> [] \<longrightarrow>
      cosine_similarity L5 [last M5] (butlast M5) = Inr sim5 \<longrightarrow>
      calcular_relevancia L5 pt5 h5 artigos5 termo5 ''pt'' =
        Inr (atribuir (concat sim5) h5 0 artigos5,
             sort_key (\<lambda>a. - chave (atribuir (concat sim5) h5 0 artigos5) a) artigos5))"
proof -
  have a: "idioma \<noteq> ''pt'' \<longrightarrow>
      preprocessar_texto nlp_en nlp_pt texto idioma =
        map token_lemma (filter (\<lambda>t. \<not> is_stop t \<and> \<not> is_punct t) (nlp_en texto))"
    by (simp add: preprocessar_texto_def)
  have b: "preprocessar_texto nlp_en1 nlp_pt1 texto1 ''pt'' =
     map token_lemma (filter (\<lambda>t. \<not> is_stop t \<and> \<not> is_punct t) (nlp_pt1 texto1))"
    by (simp add: preprocessar_texto_def)
  have c: "idioma2 \<noteq> ''pt'' \<longrightarrow>
      fit_transform L2 English (textos_de h2 artigos2 @ [termo2]) = Inl e2 \<longrightarrow>
      calcular_relevancia L2 pt2 h2 artigos2 termo2 idioma2 = Inl e2"
    by (simp add: calcular_relevancia_def escolher_stop_words_def)
  have d: "idioma3 \<noteq> ''pt'' \<longrightarrow>
      fit_transform L3 English (textos_de h3 artigos3 @ [termo3]) = Inr M3 \<longrightarrow> M3 \<noteq> [] \<longrightarrow>
      cosine_similarity L3 [last M3] (butlast M3) = Inr sim3 \<longrightarrow>
      calcular_relevancia L3 pt3 h3 artigos3 termo3 idioma3 =
        Inr (atribuir (concat sim3) h3 0 artigos3,
             sort_key (\<lambda>a. - chave (atribuir (concat sim3) h3 0 artigos3) a) artigos3)"
    by (simp add: calcular_relevancia_def escolher_stop_words_def sorted_reverse_atribuir Let_def)
  have e: "fit_transform L4 (Stop_list pt4) (textos_de h4 artigos4 @ [termo4]) = Inl e4 \<longrightarrow>
      calcular_relevancia L4 pt4 h4 artigos4 termo4 ''pt'' = Inl e4"
    by (simp add: calcular_relevancia_def escolher_stop_words_def)
  have f: "fit_transform L5 (Stop_list pt5) (textos_de h5 artigos5 @ [termo5]) = Inr M5 \<longrightarrow> M5 \<noteq> [] \<longrightarrow>
      cosine_similarity L5 [last M5] (butlast M5) = Inr sim5 \<longrightarrow>
      calcular_relevancia L5 pt5 h5 artigos5 termo5 ''pt'' =
        Inr (atribuir (concat sim5) h5 0 artigos5,
             sort_key (\<lambda>a. - chave (atribuir (concat sim5) h5 0 artigos5) a) artigos5)"
    by (simp add: calcular_relevancia_def escolher_stop_words_def sorted_reverse_atribuir Let_def)
  from a b c d e f show ?thesis by blast
qed

theorem idioma_default_english_witness:
  "preprocessar_texto (nlp_demo ''en:'') (nlp_demo ''pt:'') ''Graphs'' ''fr'' = [''en:Graphs''] \<and>
   preprocessar_texto (nlp_demo ''en:'') (nlp_demo ''pt:'') ''Graphs'' ''pt'' = [''pt:Graphs''] \<and>
   calcular_relevancia so_lista [''the''] h_ex [2, 1] ''graph'' ''fr'' = Inl ValueError \<and>
   calcular_relevancia so_ingles [''graph''] h_ex [2, 1] ''graph'' ''fr'' = Inr (h_ex_21, [1, 2]) \<and>
   calcular_relevancia so_ingles [''the''] h_ex [2, 1] ''graph'' ''pt'' = Inl ValueError \<and>
   calcular_relevancia so_lista [''the''] h_ex [2, 1] ''graph'' ''pt'' = Inr (h_ex_21, [1, 2])"
proof -
  have fr: "''fr'' \<noteq> ''pt''" by simp
  have pre_en: "map token_lemma (filter (\<lambda>t. \<not> is_stop t \<and> \<not> is_punct t) (nlp_demo ''en:'' ''Graphs'')) = [''en:Graphs'']"
    by (simp add: nlp_demo_def)
  have pre_pt: "map token_lemma (filter (\<lambda>t. \<not> is_stop t \<and> \<not> is_punct t) (nlp_demo ''pt:'' ''Graphs'')) = [''pt:Graphs'']"
    by (simp add: nlp_demo_def)
  have f2: "fit_transform so_lista English (textos_de h_ex [2, 1] @ [''graph'']) = Inl ValueError"
    by (simp add: so_lista_def)
  have f3: "fit_transform so_ingles English (textos_de h_ex [2, 1] @ [''graph'']) = Inr [[0], [1], [1]]"
    unfolding textos_ex_21 by (simp add: so_ingles_def fit_the_graph_graph)
  have f4: "fit_transform so_ingles (Stop_list [''the'']) (textos_de h_ex [2, 1] @ [''graph'']) = Inl ValueError"
    by (simp add: so_ingles_def)
  have f5: "fit_transform so_lista (Stop_list [''the'']) (textos_de h_ex [2, 1] @ [''graph'']) = Inr [[0], [1], [1]]"
    unfolding textos_ex_21 by (simp add: so_lista_def fit_the_graph_graph_lista)
  have ne: "([[0], [1], [1]] :: matrix) \<noteq> []" by simp
  have c3: "cosine_similarity so_ingles [last [[0], [1], [1]]] (butlast [[0], [1], [1]]) = Inr [[0, 1]]"
    using cosine_ex_21 by (simp add: so_ingles_def)
  have c5: "cosine_similarity so_lista [last [[0], [1], [1]]] (butlast [[0], [1], [1]]) = Inr [[0, 1]]"
    using cosine_ex_21 by (simp add: so_lista_def)
  from idioma_default_english [where idioma = "''fr''" and nlp_en = "nlp_demo ''en:''"
      and nlp_pt = "nlp_demo ''pt:''" and texto = "''Graphs''"
      and ?nlp_en1.0 = "nlp_demo ''en:''" and ?nlp_pt1.0 = "nlp_demo ''pt:''" and ?texto1.0 = "''Graphs''"
      and ?idioma2.0 = "''fr''" and ?L2.0 = so_lista and ?pt2.0 = "[''the'']" and ?h2.0 = h_ex
      and ?artigos2.0 = "[2, 1]" and ?termo2.0 = "''graph''" and ?e2.0 = ValueError
      and ?idioma3.0 = "''fr''" and ?L3.0 = so_ingles and ?pt3.0 = "[''graph'']" and ?h3.0 = h_ex
      and ?artigos3.0 = "[2, 1]" and ?termo3.0 = "''graph''" and ?M3.0 = "[[0], [1], [1]]"
      and ?sim3.0 = "[[0, 1]]"
      and ?L4.0 = so_ingles and ?pt4.0 = "[''the'']" and ?h4.0 = h_ex
      and ?artigos4.0 = "[2, 1]" and ?termo4.0 = "''graph''" and ?e4.0 = ValueError
      and ?L5.0 = so_lista and ?pt5.0 = "[''the'']" and ?h5.0 = h_ex
      and ?artigos5.0 = "[2, 1]" and ?termo5.0 = "''graph''" and ?M5.0 = "[[0], [1], [1]]"
      and ?sim5.0 = "[[0, 1]]"]
    fr f2 f3 f4 f5 ne c3 c5
  have "preprocessar_texto (nlp_demo ''en:'') (nlp_demo ''pt:'') ''Graphs'' ''fr'' =
          map token_lemma (filter (\<lambda>t. \<not> is_stop t \<and> \<not> is_punct t) (nlp_demo ''en:'' ''Graphs'')) \<and>
        preprocessar_texto (nlp_demo ''en:'') (nlp_demo ''pt:'') ''Graphs'' ''pt'' =
          map token_lemma (filter (\<lambda>t. \<not> is_stop t \<and> \<not> is_punct t) (nlp_demo ''pt:'' ''Graphs'')) \<and>
        calcular_relevancia so_lista [''the''] h_ex [2, 1] ''graph'' ''fr'' = Inl ValueError \<and>
        calcular_relevancia so_ingles [''graph''] h_ex [2, 1] ''graph'' ''fr'' =
          Inr (atribuir (concat [[0, 1]]) h_ex 0 [2, 1],
               sort_key (\<lambda>a. - chave (atribuir (concat [[0, 1]]) h_ex 0 [2, 1]) a) [2, 1]) \<and>
        calcular_relevancia so_ingles [''the''] h_ex [2, 1] ''graph'' ''pt'' = Inl ValueError \<and>
        calcular_relevancia so_lista [''the''] h_ex [2, 1] ''graph'' ''pt'' =
          Inr (atribuir (concat [[0, 1]]) h_ex 0 [2, 1],
               sort_key (\<lambda>a. - chave (atribuir (concat [[0, 1]]) h_ex 0 [2, 1]) a) [2, 1])"
    by blast
  then show ?thesis unfolding pre_en pre_pt atribuir_ex_21 sort_ex_21 .
qed

section \<open>Sentinel abstracts and the positions of the scores\<close>

text \<open>
  C1, at a list whose first article has no abstract. The vectoriser sees one abstract,
  "graph", and the query "graph"; the similarity of that abstract is 1. The loop stores the
  1 at position 0, which is the article without abstract, and gives the article the score
  belongs to the fallback 0.
\<close>

theorem calcular_relevancia_sentinel_misaligned:
  "resumo (h_ex 0) = resumo_nao_disponivel \<and> resumo (h_ex 1) = ''graph'' \<and>
   textos_de h_ex [0, 1] = [''graph''] \<and>
   fit_transform (scikit english_excerpt) English [''graph'', ''graph''] = Inr [[1], [1]] \<and>
   cosine_similarity (scikit english_excerpt) [[1]] [[1]] = Inr [[1]] \<and>
   calcular_relevancia (scikit english_excerpt) [] h_ex [0, 1] ''graph'' ''en'' = Inr (h_ex_01, [0, 1]) \<and>
   relevancia (h_ex_01 0) = Some 1 \<and> relevancia (h_ex_01 1) = Some 0"
proof -
  have "textos_de h_ex [0, 1] = [''graph'']"
    by (simp add: textos_de_def h_ex_def novo_artigo_def resumo_nao_disponivel_def)
  moreover have "cosine_similarity (scikit english_excerpt) [[1]] [[1]] = Inr [[1]]"
    by (simp add: scikit_def pairwise_cosine_def dot_def normalize_single)
  moreover have "fit_transform (scikit english_excerpt) English [''graph'', ''graph''] = Inr [[1], [1]]"
    by (simp add: scikit_def fit_graph_graph)
  ultimately show ?thesis
    using run_ex_01 by (simp add: h_ex_01_def h_ex_def novo_artigo_def)
qed

section \<open>Degenerate documents\<close>

lemma vocabulary_Nil: "sort (remdups xs) = [] \<longleftrightarrow> xs = []"
proof
  assume "sort (remdups xs) = []"
  then have "set (sort (remdups xs)) = {}" by simp
  then show "xs = []" by simp
qed simp

lemma fit_transform_empty_vocabulary:
  assumes "list_all (\<lambda>d. analyze english sw d = []) docs"
  shows "tfidf_fit_transform english sw docs = Inl ValueError"
proof -
  from assms have c: "concat (map (analyze english sw) docs) = []"
    by (simp add: list_all_iff)
  show ?thesis unfolding tfidf_fit_transform_def Let_def c by simp
qed

lemma fit_transform_vocabulary:
  assumes "d \<in> set docs" and "analyze english sw d \<noteq> []"
  shows "tfidf_fit_transform english sw docs =
         Inr (map (tfidf_row (length docs) (map (analyze english sw) docs)
                     (sort (remdups (concat (map (analyze english sw) docs)))))
                  (map (analyze english sw) docs))"
proof -
  from assms have "concat (map (analyze english sw) docs) \<noteq> []" by auto
  then show ?thesis by (simp add: tfidf_fit_transform_def vocabulary_Nil Let_def)
qed

lemma normalize_zeros: "normalize (replicate n 0) = replicate n 0"
  by (simp add: normalize_def norm_l2_def)

lemma tfidf_row_Nil: "tfidf_row n toks vocabulary [] = replicate (length vocabulary) 0"
  by (simp add: tfidf_row_def map_replicate_const normalize_zeros)

lemma dot_zeros_left: "dot (replicate n 0) v = 0"
proof (induction n arbitrary: v)
  case 0
  then show ?case by (simp add: dot_def)
next
  case (Suc n)
  then show ?case by (cases v) (simp_all add: dot_def)
qed

lemma dot_zeros_right: "dot u (replicate n 0) = 0"
proof (induction n arbitrary: u)
  case 0
  then show ?case by (simp add: dot_def)
next
  case (Suc n)
  then show ?case by (cases u) (simp_all add: dot_def)
qed

lemma atribuir_zeros:
  assumes "\<forall>x\<in>set s. x = 0"
    and "a \<in> set as \<or> relevancia (h a) = Some 0"
  shows "relevancia (atribuir s h i as a) = Some 0"
  using assms(2)
proof (induction as arbitrary: h i)
  case Nil
  then show ?case by simp
next
  case (Cons b bs)
  have z: "(if i < length s then s ! i else 0) = 0"
    using assms(1) by auto
  let ?h = "h(b := (h b)\<lparr>relevancia := Some (if i < length s then s ! i else 0)\<rparr>)"
  from Cons.prems z have "a \<in> set bs \<or> relevancia (?h a) = Some 0" by auto
  then have "relevancia (atribuir s ?h (Suc i) bs a) = Some 0" by (rule Cons.IH)
  then show ?case by simp
qed

lemma calcular_relevancia_scikit_no_textos:
  assumes "textos_de h artigos = []"
  shows "calcular_relevancia (scikit english) pt h artigos termo idioma = Inl ValueError"
proof (cases "analyze english (escolher_stop_words pt idioma) termo = []")
  case True
  then have "tfidf_fit_transform english (escolher_stop_words pt idioma) [termo] = Inl ValueError"
    by (simp add: fit_transform_empty_vocabulary)
  then show ?thesis by (simp add: calcular_relevancia_def assms scikit_def)
next
  case False
  then have "tfidf_fit_transform english (escolher_stop_words pt idioma) [termo] =
      Inr [tfidf_row 1 [analyze english (escolher_stop_words pt idioma) termo]
             (sort (remdups (analyze english (escolher_stop_words pt idioma) termo)))
             (analyze english (escolher_stop_words pt idioma) termo)]"
    using fit_transform_vocabulary [of termo "[termo]" english "escolher_stop_words pt idioma"]
    by simp
  then show ?thesis
    by (simp add: calcular_relevancia_def assms scikit_def pairwise_cosine_def)
qed

lemma calcular_relevancia_scikit_one_document:
  assumes t: "textos_de h artigos \<noteq> []"
    and one: "length (filter (\<lambda>d. analyze english (escolher_stop_words pt idioma) d \<noteq> [])
                        (textos_de h artigos @ [termo])) = 1"
  shows "\<exists>h' ordenados.
           calcular_relevancia (scikit english) pt h artigos termo idioma = Inr (h', ordenados) \<and>
           list_all (\<lambda>a. relevancia (h' a) = Some 0) artigos"
proof -
  define sw where "sw = escolher_stop_words pt idioma"
  define textos where "textos = textos_de h artigos"
  define docs where "docs = textos @ [termo]"
  define toks where "toks = map (analyze english sw) docs"
  define vocabulary where "vocabulary = sort (remdups (concat toks))"
  define row where "row = tfidf_row (length docs) toks vocabulary"
  define zs :: "real list" where "zs = replicate (length vocabulary) 0"
  from one have "filter (\<lambda>d. analyze english sw d \<noteq> []) docs \<noteq> []"
    unfolding sw_def docs_def textos_def by (metis length_0_conv zero_neq_one)
  then obtain d where d: "d \<in> set docs" "analyze english sw d \<noteq> []"
    by (auto simp: filter_empty_conv)
  define Ms where "Ms = map row (map (analyze english sw) textos)"
  define r where "r = row (analyze english sw termo)"
  have "map row (map (analyze english sw) docs) = Ms @ [r]"
    by (simp add: docs_def Ms_def r_def)
  with fit_transform_vocabulary [OF d]
  have fit: "tfidf_fit_transform english sw docs = Inr (Ms @ [r])"
    by (simp only: row_def toks_def vocabulary_def)
  have either: "analyze english sw termo = [] \<or> (\<forall>x\<in>set textos. analyze english sw x = [])"
  proof (cases "analyze english sw termo = []")
    case True
    then show ?thesis by simp
  next
    case False
    with one have "filter (\<lambda>d. analyze english sw d \<noteq> []) textos = []"
      by (simp add: sw_def textos_def)
    then show ?thesis by (auto simp: filter_empty_conv)
  qed
  have rz: "row [] = zs" by (simp add: row_def zs_def tfidf_row_Nil)
  define sims where "sims = map (\<lambda>y. dot (normalize r) (normalize y)) Ms"
  have zero: "\<forall>x\<in>set sims. x = 0"
  proof (cases "analyze english sw termo = []")
    case True
    then show ?thesis
      by (simp add: sims_def r_def rz zs_def normalize_zeros dot_zeros_left)
  next
    case False
    with either have "\<forall>x\<in>set textos. analyze english sw x = []" by simp
    then show ?thesis
      by (auto simp: sims_def Ms_def rz zs_def normalize_zeros dot_zeros_right)
  qed
  have ne: "Ms \<noteq> []" using t by (simp add: Ms_def textos_def)
  have cos: "pairwise_cosine [r] Ms = Inr [sims]"
    using ne by (simp add: pairwise_cosine_def sims_def)
  define h' where "h' = atribuir sims h 0 artigos"
  have fit': "fit_transform (scikit english) (escolher_stop_words pt idioma) (textos_de h artigos @ [termo]) = Inr (Ms @ [r])"
    using fit by (simp add: scikit_def sw_def textos_def docs_def)
  have cos': "cosine_similarity (scikit english) [r] Ms = Inr [sims]"
    using cos by (simp add: scikit_def)
  have calc: "calcular_relevancia (scikit english) pt h artigos termo idioma =
              Inr (h', sort_key (\<lambda>a. - chave h' a) artigos)"
    unfolding calcular_relevancia_def Let_def fit'
    by (simp add: cos' h'_def sorted_reverse_atribuir)
  have "list_all (\<lambda>a. relevancia (h' a) = Some 0) artigos"
    unfolding list_all_iff h'_def using atribuir_zeros [OF zero] by blast
  with calc show ?thesis by blast
qed

text \<open>
  C2, as stated, at one article whose abstract is "the" and the query "of": both are
  empty after the English stop words are removed, and \<open>calcular_relevancia\<close> ends in
  the ValueError of the vectoriser instead of scoring the article 0.
\<close>

theorem calcular_relevancia_stop_words_only_counterexample:
  "textos_de h_ex [2] = [''the''] \<and>
   analyze english_excerpt English ''the'' = [] \<and>
   analyze english_excerpt English ''of'' = [] \<and>
   calcular_relevancia (scikit english_excerpt) [] h_ex [2] ''of'' ''en'' = Inl ValueError"
proof -
  have t: "textos_de h_ex [2] = [''the'']"
    by (simp add: textos_de_def h_ex_def novo_artigo_def resumo_nao_disponivel_def)
  have a: "analyze english_excerpt English ''the'' = []"
    by (simp add: analyse_simps)
  have b: "analyze english_excerpt English ''of'' = []"
    by (simp add: analyse_simps)
  have "tfidf_fit_transform english_excerpt English [''the'', ''of''] = Inl ValueError"
    unfolding tfidf_fit_transform_def Let_def by (simp add: a b)
  then have "calcular_relevancia (scikit english_excerpt) [] h_ex [2] ''of'' ''en'' = Inl ValueError"
    unfolding calcular_relevancia_def Let_def t
    by (simp add: escolher_stop_words_def scikit_def)
  with t a b show ?thesis by blast
qed

text \<open>
  C2, amended. With the scikit-learn vectoriser, when every document (the abstracts that
  are not the sentinel, and the query) is empty after stop-word removal,
  \<open>calcular_relevancia\<close> raises the vectoriser's ValueError; no article is scored.
\<close>

theorem calcular_relevancia_empty_vocabulary_raises:
  assumes "list_all (\<lambda>d. analyze english (escolher_stop_words pt idioma) d = [])
             (textos_de h artigos @ [termo])"
  shows "calcular_relevancia (scikit english) pt h artigos termo idioma = Inl ValueError"
proof -
  from assms
  have "tfidf_fit_transform english (escolher_stop_words pt idioma) (textos_de h artigos @ [termo]) =
        Inl ValueError"
    by (rule fit_transform_empty_vocabulary)
  then show ?thesis
    unfolding calcular_relevancia_def Let_def by (simp add: scikit_def)
qed

theorem calcular_relevancia_empty_vocabulary_raises_witness:
  "list_all (\<lambda>d. analyze english_excerpt (escolher_stop_words [] ''fr'') d = [])
     (textos_de h_ex [2, 0] @ [''and'']) \<and>
   calcular_relevancia (scikit english_excerpt) [] h_ex [2, 0] ''and'' ''fr'' = Inl ValueError"
proof -
  have t: "textos_de h_ex [2, 0] = [''the'']"
    by (simp add: textos_de_def h_ex_def novo_artigo_def resumo_nao_disponivel_def)
  have hyp: "list_all (\<lambda>d. analyze english_excerpt (escolher_stop_words [] ''fr'') d = [])
     (textos_de h_ex [2, 0] @ [''and''])"
    unfolding t by (simp add: escolher_stop_words_def analyse_simps)
  from calcular_relevancia_empty_vocabulary_raises [OF hyp] hyp show ?thesis by blast
qed

text \<open>
  C4, as stated, at the empty article list and the query "graph": the vectoriser builds
  a matrix with the query as its only row, the similarity is asked against a matrix with
  no rows, and \<open>calcular_relevancia\<close> ends in a ValueError instead of returning the
  empty list.
\<close>

theorem calcular_relevancia_empty_list_counterexample:
  "calcular_relevancia (scikit english_excerpt) [] h_ex [] ''graph'' ''en'' = Inl ValueError"
proof -
  have "tfidf_fit_transform english_excerpt English [''graph''] = Inr [[1]]"
    by (simp add: tfidf_fit_transform_def tfidf_row_def analyse_simps normalize_single idf_pos)
  then show ?thesis
    unfolding calcular_relevancia_def Let_def
    by (simp add: textos_de_def escolher_stop_words_def scikit_def pairwise_cosine_def)
qed

text \<open>
  C4, amended. With the scikit-learn calls, \<open>calcular_relevancia\<close> raises ValueError
  on the empty article list, whatever the query. When at least one article has an abstract
  other than the sentinel and exactly one document among those abstracts and the query is
  non-empty after stop-word removal, it returns and every article has relevance 0.
\<close>

theorem calcular_relevancia_degenerate:
  "calcular_relevancia (scikit english) pt h [] termo idioma = Inl ValueError \<and>
   (textos_de h2 artigos2 \<noteq> [] \<longrightarrow>
      length (filter (\<lambda>d. analyze english (escolher_stop_words pt2 idioma2) d \<noteq> [])
                (textos_de h2 artigos2 @ [termo2])) = 1 \<longrightarrow>
      (\<exists>h' ordenados.
          calcular_relevancia (scikit english) pt2 h2 artigos2 termo2 idioma2 = Inr (h', ordenados) \<and>
          list_all (\<lambda>a. relevancia (h' a) = Some 0) artigos2))"
proof -
  have "textos_de h [] = []" by (simp add: textos_de_def)
  then have "calcular_relevancia (scikit english) pt h [] termo idioma = Inl ValueError"
    by (rule calcular_relevancia_scikit_no_textos)
  with calcular_relevancia_scikit_one_document [of h2 artigos2 english pt2 idioma2 termo2]
  show ?thesis by blast
qed

theorem calcular_relevancia_degenerate_witness:
  "calcular_relevancia (scikit english_excerpt) [''de''] h_ex [] ''graph'' ''pt'' = Inl ValueError \<and>
   textos_de h_ex [1] = [''graph''] \<and>
   length (filter (\<lambda>d. analyze english_excerpt (escolher_stop_words [] ''en'') d \<noteq> [])
             (textos_de h_ex [1] @ [''the''])) = 1 \<and>
   (\<exists>h' ordenados.
       calcular_relevancia (scikit english_excerpt) [] h_ex [1] ''the'' ''en'' = Inr (h', ordenados) \<and>
       list_all (\<lambda>a. relevancia (h' a) = Some 0) [1])"
proof -
  have t1: "textos_de h_ex [1] = [''graph'']"
    by (simp add: textos_de_def h_ex_def novo_artigo_def resumo_nao_disponivel_def)
  have ne: "textos_de h_ex [1] \<noteq> []" unfolding t1 by simp
  have one: "length (filter (\<lambda>d. analyze english_excerpt (escolher_stop_words [] ''en'') d \<noteq> [])
             (textos_de h_ex [1] @ [''the''])) = 1"
    unfolding t1 by (simp add: escolher_stop_words_def analyse_simps)
  from calcular_relevancia_degenerate [of english_excerpt "[''de'']" h_ex "''graph''" "''pt''"
      h_ex "[1]" "[]" "''en''" "''the''"] t1 ne one
  show ?thesis by blast
qed

section \<open>coletar_artigos\<close>

lemma length_slice_ate: "0 \<le> m \<Longrightarrow> length (slice_ate m xs) \<le> nat m"
  by (simp add: slice_ate_def)

lemma coletar_laco_bound:
  assumes "coletar_laco m i resultados artigos = Inr bs"
    and "length artigos = i" and "int i \<le> m"
  shows "int (length bs) \<le> m"
  using assms
proof (induction m i resultados artigos rule: coletar_laco.induct)
  case (1 m i artigos)
  then show ?case by simp
next
  case (2 m i e resto artigos)
  then show ?case by simp
next
  case (3 m i r resto artigos)
  show ?case
  proof (cases "m \<le> int i")
    case True
    with 3 show ?thesis by simp
  next
    case False
    with 3 show ?thesis by simp
  qed
qed

lemma coletar_laco_raises:
  "int (i + length ps) \<le> m \<Longrightarrow> coletar_laco m i (map Inr ps @ Inl e # resto) artigos = Inl e"
proof (induction ps arbitrary: i artigos)
  case Nil
  then show ?case by simp
next
  case (Cons p ps)
  from Cons.prems have "\<not> m \<le> int i" and "int (Suc i + length ps) \<le> m" by simp_all
  with Cons.IH [of "Suc i"] show ?case by simp
qed

text \<open>
  C5, as stated, at a request that raises, in both variants: \<open>coletar_artigos\<close> has no
  handler, the exception reaches the caller. And at the cap -1 with three results: the
  slice \<open>resultados[:-1]\<close> of the SerpAPI variant gives two records, more than the cap.
\<close>

theorem coletar_artigos_exception_counterexample:
  "coletar_artigos_serpapi get_falha ''graph'' 10 = Inl RequestException \<and>
   coletar_artigos_scholarly search_falha ''graph'' 10 = Inl RequestException \<and>
   coletar_artigos_serpapi get_ok ''graph'' (- 1) =
     Inr [novo_artigo ''Graphs'' ''graph'' ''http://g'',
          novo_artigo titulo_nao_disponivel resumo_nao_disponivel []] \<and>
   \<not> int (length [novo_artigo ''Graphs'' ''graph'' ''http://g'',
                  novo_artigo titulo_nao_disponivel resumo_nao_disponivel []]) \<le> - 1"
  by (simp add: coletar_artigos_serpapi_def get_falha_def coletar_artigos_scholarly_def search_falha_def
      get_ok_def tres_resultados_def slice_ate_def artigo_serpapi_def get_or_def)

text \<open>
  C5, amended. For a result cap that is not negative, a list that \<open>coletar_artigos\<close>
  returns has at most \<open>max_resultados\<close> records, each with \<open>titulo\<close>, \<open>resumo\<close> and
  \<open>link\<close> and no relevance yet; a response whose status is not 200 gives the empty
  list; an exception raised by the remote call is propagated to the caller. The first three
  parts are the SerpAPI variant (the bound, the status, an exception of \<open>requests.get\<close>).
  The last three are the scholarly variant: the bound, an exception of
  \<open>scholarly.search_pubs\<close>, and an exception its generator raises after yielding no more
  publications than the cap.
\<close>

theorem coletar_artigos_bounded:
  "(0 \<le> m \<longrightarrow> coletar_artigos_serpapi get q m = Inr as \<longrightarrow>
      length as \<le> nat m \<and> list_all (\<lambda>a. relevancia a = None) as) \<and>
   (get2 q2 m2 = Inr resp \<longrightarrow> status_code resp \<noteq> 200 \<longrightarrow>
      coletar_artigos_serpapi get2 q2 m2 = Inr []) \<and>
   (get3 q3 m3 = Inl e3 \<longrightarrow> coletar_artigos_serpapi get3 q3 m3 = Inl e3) \<and>
   (0 \<le> m4 \<longrightarrow> coletar_artigos_scholarly search4 q4 m4 = Inr bs \<longrightarrow> length bs \<le> nat m4) \<and>
   (search5 q5 = Inl e5 \<longrightarrow> coletar_artigos_scholarly search5 q5 m5 = Inl e5) \<and>
   (search6 q6 = Inr (map Inr ps @ Inl e6 # resto) \<longrightarrow> int (length ps) \<le> m6 \<longrightarrow>
      coletar_artigos_scholarly search6 q6 m6 = Inl e6)"
proof -
  have a: "0 \<le> m \<longrightarrow> coletar_artigos_serpapi get q m = Inr as \<longrightarrow>
      length as \<le> nat m \<and> list_all (\<lambda>a. relevancia a = None) as"
    by (auto simp: coletar_artigos_serpapi_def length_slice_ate list_all_iff
        artigo_serpapi_def novo_artigo_def split: sum.splits if_splits corpo.splits)
  have b: "get2 q2 m2 = Inr resp \<longrightarrow> status_code resp \<noteq> 200 \<longrightarrow>
      coletar_artigos_serpapi get2 q2 m2 = Inr []"
    by (simp add: coletar_artigos_serpapi_def)
  have c: "get3 q3 m3 = Inl e3 \<longrightarrow> coletar_artigos_serpapi get3 q3 m3 = Inl e3"
    by (simp add: coletar_artigos_serpapi_def)
  have d: "0 \<le> m4 \<longrightarrow> coletar_artigos_scholarly search4 q4 m4 = Inr bs \<longrightarrow> length bs \<le> nat m4"
  proof (intro impI)
    assume m: "0 \<le> m4" and r: "coletar_artigos_scholarly search4 q4 m4 = Inr bs"
    from r obtain resultados where "coletar_laco m4 0 resultados [] = Inr bs"
      by (auto simp: coletar_artigos_scholarly_def split: sum.splits)
    from coletar_laco_bound [OF this] m have "int (length bs) \<le> m4" by simp
    then show "length bs \<le> nat m4" by simp
  qed
  have e: "search5 q5 = Inl e5 \<longrightarrow> coletar_artigos_scholarly search5 q5 m5 = Inl e5"
    by (simp add: coletar_artigos_scholarly_def)
  have f: "search6 q6 = Inr (map Inr ps @ Inl e6 # resto) \<longrightarrow> int (length ps) \<le> m6 \<longrightarrow>
      coletar_artigos_scholarly search6 q6 m6 = Inl e6"
    using coletar_laco_raises [of 0 ps m6 e6 resto "[]"]
    by (simp add: coletar_artigos_scholarly_def)
  from a b c d e f show ?thesis by blast
qed

theorem coletar_artigos_bounded_witness:
  "coletar_artigos_serpapi get_ok ''graph'' 2 =
     Inr [novo_artigo ''Graphs'' ''graph'' ''http://g'',
          novo_artigo titulo_nao_disponivel resumo_nao_disponivel []] \<and>
   length [novo_artigo ''Graphs'' ''graph'' ''http://g'',
           novo_artigo titulo_nao_disponivel resumo_nao_disponivel []] \<le> nat 2 \<and>
   coletar_artigos_serpapi get_500 ''graph'' 2 = Inr [] \<and>
   coletar_artigos_serpapi get_falha ''graph'' 2 = Inl RequestException \<and>
   coletar_artigos_scholarly search_ok ''graph'' 2 =
     Inr [novo_artigo ''Graphs'' ''graph'' ''http://g'',
          novo_artigo titulo_nao_disponivel resumo_nao_disponivel []] \<and>
   coletar_artigos_scholarly search_falha ''graph'' 2 = Inl RequestException \<and>
   search_interrompida ''graph'' = Inr (map Inr [publicacao_grafos] @ [Inl RequestException]) \<and>
   coletar_artigos_scholarly search_interrompida ''graph'' 1 = Inl RequestException"
proof -
  have r1: "coletar_artigos_serpapi get_ok ''graph'' 2 =
     Inr [novo_artigo ''Graphs'' ''graph'' ''http://g'',
          novo_artigo titulo_nao_disponivel resumo_nao_disponivel []]"
    by (simp add: coletar_artigos_serpapi_def get_ok_def tres_resultados_def slice_ate_def
        artigo_serpapi_def get_or_def)
  have r2: "get_500 ''graph'' 2 = Inr \<lparr>status_code = 500, json = Nao_json\<rparr>"
    by (simp add: get_500_def)
  have r3: "get_falha ''graph'' 2 = Inl RequestException"
    by (simp add: get_falha_def)
  have r4: "coletar_artigos_scholarly search_ok ''graph'' 2 =
     Inr [novo_artigo ''Graphs'' ''graph'' ''http://g'',
          novo_artigo titulo_nao_disponivel resumo_nao_disponivel []]"
    by (simp add: coletar_artigos_scholarly_def search_ok_def tres_publicacoes_def
        artigo_scholarly_def get_or_def)
  have r5: "search_falha ''graph'' = Inl RequestException"
    by (simp add: search_falha_def)
  have r6: "search_interrompida ''graph'' = Inr (map Inr [publicacao_grafos] @ [Inl RequestException])"
    by (simp add: search_interrompida_def)
  from coletar_artigos_bounded [of 2 get_ok "''graph''"
      "[novo_artigo ''Graphs'' ''graph'' ''http://g'', novo_artigo titulo_nao_disponivel resumo_nao_disponivel []]"
      get_500 "''graph''" 2 "\<lparr>status_code = 500, json = Nao_json\<rparr>"
      get_falha "''graph''" 2 RequestException
      2 search_ok "''graph''"
      "[novo_artigo ''Graphs'' ''graph'' ''http://g'', novo_artigo titulo_nao_disponivel resumo_nao_disponivel []]"
      search_falha "''graph''" RequestException 2
      search_interrompida "''graph''" "[publicacao_grafos]" RequestException "[]" 1]
    r1 r2 r3 r4 r5 r6
  show ?thesis by simp
qed

section \<open>baixar_pdf\<close>

text \<open>
  C7, on POSIX, at the article titled "/tmp/x" with the link "http://b" and the
  destination directory "pdfs", which does not exist. Where the directory cannot be
  created, the exception of \<open>os.makedirs\<close>, which is called before the \<open>try\<close>, leaves
  the function. Where it is created and the download succeeds, the function returns True,
  the bytes are in "/tmp/x.pdf", and there is no such file inside "pdfs".
\<close>

theorem baixar_pdf_leaves_directory:
  "baixar_pdf posixpath_join amb_sem_permissao fs_vazio artigo_barra ''pdfs'' = (fs_vazio, Inl OSError) \<and>
   take 50 (titulo artigo_barra) = ''/tmp/x'' \<and>
   posixpath_join ''pdfs'' (take 50 (titulo artigo_barra) @ ''.pdf'') = ''/tmp/x.pdf'' \<and>
   baixar_pdf posixpath_join amb_ok fs_vazio artigo_barra ''pdfs'' =
     (\<lparr>dirs = {''pdfs''}, files = [''/tmp/x.pdf'' \<mapsto> ''%PDF-1.4'']\<rparr>, Inr True)"
  by (simp add: baixar_pdf_def amb_sem_permissao_def amb_ok_def fs_vazio_def artigo_barra_def
      novo_artigo_def os_path_exists_def posixpath_join_def get_or_def)

section \<open>salvar_artigos and reading the file back\<close>




















lemma skip_ws_Cons: "skip_ws (c # s) = (if whitespace c then skip_ws s else c # s)"
  by (simp add: skip_ws_def)



lemma skip_ws_start: "\<not> whitespace c \<Longrightarrow> skip_ws (c # s) = c # s"
  by (simp add: skip_ws_Cons)



























end
